theory Spec2Isabelle
  imports Main "HOL-Library.Word"
begin

section \<open>Data model\<close>

text \<open>
  Go's fixed-width integers are words: \<open>+\<close> and \<open>-\<close> wrap, \<open><s\<close> and \<open>\<le>s\<close> are the
  signed comparisons of \<open>int32\<close>, \<open><\<close> and \<open>\<le>\<close> the unsigned ones.  A \<open>float32\<close> is kept
  as the 32 bits \<open>math.Float32frombits\<close> reinterprets: the program never computes with
  one.  Go's \<open>int\<close> counters (\<open>Rollbacks.Count\<close>, the rollback lengths) are \<open>int\<close>: they
  count handled events and cannot reach 2^63.
\<close>

type_synonym uint8 = "8 word"
type_synonym int8 = "8 word"
type_synonym uint16 = "16 word"
type_synonym uint32 = "32 word"
type_synonym int32 = "32 word"
type_synonym uint64 = "64 word"
type_synonym float32 = "32 word"

subsection \<open>Event payloads (the type declarations of the event file)\<close>

text \<open>
  \<open>semver.Version\<close> of the semver library, for the versions the decoder builds: three
  numbers and no pre-release tag.  \<open>Compare\<close> is then the lexicographic order.
\<close>

record Version =
  Major :: uint64
  Minor :: uint64
  Patch :: uint64

definition Compare :: "Version \<Rightarrow> Version \<Rightarrow> int" where
  "Compare v w =
     (if Major v \<noteq> Major w then (if Major w < Major v then 1 else - 1)
      else if Minor v \<noteq> Minor w then (if Minor w < Minor v then 1 else - 1)
      else if Patch v \<noteq> Patch w then (if Patch w < Patch v then 1 else - 1)
      else 0)"

definition GTE :: "Version \<Rightarrow> Version \<Rightarrow> bool" where
  "GTE v w = (0 \<le> Compare v w)"

definition LTE :: "Version \<Rightarrow> Version \<Rightarrow> bool" where
  "LTE v w = (Compare v w \<le> 0)"

text \<open>\<open>PlayerType\<close> is a \<open>uint8\<close>: Human, CPU, Demo, Empty are 0 to 3.\<close>

type_synonym PlayerType = uint8

abbreviation (input) Human :: PlayerType where "Human \<equiv> 0"
abbreviation (input) CPU :: PlayerType where "CPU \<equiv> 1"
abbreviation (input) Demo :: PlayerType where "Demo \<equiv> 2"
abbreviation (input) Empty :: PlayerType where "Empty \<equiv> 3"

record PlayerInfo =
  Index :: uint8
  Port :: uint8
  CharacterID :: uint8
  PlayerType :: PlayerType
  StockStartCount :: uint8
  CostumeIndex :: uint8
  TeamShade :: uint8
  Handicap :: uint8
  TeamID :: uint8
  PlayerBitfield :: uint8
  CPULevel :: uint8
  OffenseRatio :: float32
  DefenseRatio :: float32
  ModelScale :: float32
  DashbackFix :: uint32
  ShieldDropFix :: uint32
  Nametag :: string
  DisplayName :: string
  ConnectCode :: string
  SlippiUID :: string

record GameInfoBlock =
  GameBitfield1 :: uint8
  GameBitfield2 :: uint8
  GameBitfield3 :: uint8
  GameBitfield4 :: uint8
  BombRain :: uint8
  IsTeams :: bool
  ItemSpawnBehavior :: int8
  SelfDestructScoreValue :: int8
  Stage :: uint16
  GameTimer :: uint32
  ItemSpawnBitfield1 :: uint8
  ItemSpawnBitfield2 :: uint8
  ItemSpawnBitfield3 :: uint8
  ItemSpawnBitfield4 :: uint8
  ItemSpawnBitfield5 :: uint8
  DamageRatio :: float32

text \<open>\<open>Players\<close> is a \<open>[4]PlayerInfo\<close>; the list has four elements when decoded.\<close>

record GameStartPayload =
  Version :: Version
  GameInfoBlock :: GameInfoBlock
  Players :: "PlayerInfo list"
  RandomSeed :: uint32
  PAL :: bool
  FrozenPS :: bool
  MajorScene :: uint8
  MinorScene :: uint8
  LanguageOption :: uint8

record FrameUpdate =
  FrameNumber :: int32
  PlayerIndex :: uint8
  IsFollower :: bool
  ActionStateID :: uint16
  XPosition :: float32
  YPosition :: float32
  FacingDirection :: float32
  Percent :: float32

text \<open>The embedded \<open>FrameUpdate\<close> struct is the field \<open>FrameUpdate\<close>.\<close>

record PreFrameUpdatePayload =
  FrameUpdate :: FrameUpdate
  RandomSeed :: uint32
  JoystickX :: float32
  JoystickY :: float32
  CStickX :: float32
  CStickY :: float32
  Trigger :: float32
  ProcessedButtons :: uint32
  PhysicalButtons :: uint16
  PhysicalLTrigger :: float32
  PhysicalRTrigger :: float32
  XAnalogUCF :: uint8

record PostFrameUpdatePayload =
  FrameUpdate :: FrameUpdate
  InternalCharacterID :: uint8
  ShieldSize :: float32
  LastHittingAttackID :: uint8
  CurrentComboCount :: uint8
  LastHitBy :: uint8
  StocksRemaining :: uint8
  ActionStateFrameCounter :: float32
  StateBitFlags1 :: uint8
  StateBitFlags2 :: uint8
  StateBitFlags3 :: uint8
  StateBitFlags4 :: uint8
  StateBitFlags5 :: uint8
  MiscAS :: float32
  Airborne :: bool
  LastGroundID :: uint16
  JumpsRemaining :: uint8
  LCancelStatus :: uint8
  HurtboxCollisionState :: uint8
  SelfInducedAirXSpeed :: float32
  SelfInducedYSpeed :: float32
  AttackBasedXSpeed :: float32
  AttackBasedYSpeed :: float32
  SelfInducedGroundXSpeed :: float32
  HitlagFramesRemaining :: float32
  AnimationIndex :: uint32

record GameEndPayload =
  GameEndMethod :: uint8
  LRASInitiator :: int8

record FrameStartPayload =
  FrameNumber :: int32
  RandomSeed :: uint32
  SceneFrameCounter :: uint32

record ItemUpdatePayload =
  FrameNumber :: int32
  TypeID :: uint16
  State :: uint8
  FacingDirection :: float32
  XVelocity :: float32
  YVelocity :: float32
  XPosition :: float32
  YPosition :: float32
  DamageTaken :: uint16
  ExpirationTimer :: float32
  SpawnID :: uint32
  SamusMissileType :: uint8
  PeachTurnipFace :: uint8
  IsLaunched :: uint8
  ChargedPower :: uint8
  Owner :: int8

record FrameBookendPayload =
  FrameNumber :: int32
  LatestFinalizedFrame :: int32

record MessageSplitterPayload =
  Data :: "uint8 list"
  DataLength :: uint16
  InternalCommand :: uint8
  LastMessage :: bool

record EventPayloadsPayload =
  PayloadSize :: uint8
  PayloadSizes :: "uint8 \<rightharpoonup> uint16"

text \<open>
  \<open>SlpEvent.Payload\<close> is an \<open>interface{}\<close>: one of the payload structs.  A type assertion
  on it is a case distinction that panics on the other variants.
\<close>

datatype Payload =
    MessageSplitterP MessageSplitterPayload
  | EventPayloadsP EventPayloadsPayload
  | GameStartP GameStartPayload
  | PreFrameUpdateP PreFrameUpdatePayload
  | PostFrameUpdateP PostFrameUpdatePayload
  | GameEndP GameEndPayload
  | FrameStartP FrameStartPayload
  | ItemUpdateP ItemUpdatePayload
  | FrameBookendP FrameBookendPayload
  | GeckoListP "uint8 list"

type_synonym Command = uint8

record SlpEvent =
  Command :: Command
  Payload :: Payload

subsection \<open>Errors\<close>

text \<open>
  Go errors are values.  Those of the parser are built by \<open>errors.New(fmt.Sprintf ...)\<close>;
  a constructor stands for the format string and carries its arguments:
  \<^item> \<open>RollbackWindowViolation n\<close>: "latestFinalizedFrame should be within 7 frames of n";
  \<^item> \<open>MissingFrameUpdate f n side i\<close>: "could not finalize frame f of n: missing
    side-frame update for player i";
  \<^item> \<open>UnknownCommand c\<close>: "unknown command: 0xc";
  \<^item> \<open>EOF\<close>, \<open>NegativePosition\<close>: what the byte source's \<open>Read\<close> and \<open>Seek\<close> fail with;
  \<^item> \<open>SeekFailed\<close>: "failed to seek to start of replay";
  \<^item> \<open>Encoding\<close>: the Shift-JIS decoder's error.
\<close>

record FrameUpdates =
  Pre :: "PreFrameUpdatePayload option"
  Post :: "PostFrameUpdatePayload option"

datatype FrameUpdateType = Pre | Post

datatype error =
    RollbackWindowViolation int32
  | MissingFrameUpdate int32 int32 FrameUpdateType uint8
  | UnknownCommand uint8
  | EOF
  | NegativePosition
  | SeekFailed
  | Encoding

subsection \<open>Parser state\<close>

text \<open>
  A Go map is a reference: copying a \<open>FrameEntry\<close> copies the reference to its \<open>Players\<close>
  and \<open>Followers\<close> maps, not the maps.  A map value is therefore an address into a store
  of maps kept with the parser (\<open>maps\<close>, with \<open>nextMap\<close> the next free address), and
  \<open>None\<close> is the nil map.  Slices are only ever appended to through the live frame, so
  they are lists.
\<close>

type_synonym addr = nat

record FrameEntry =
  Players :: "addr option"
  Followers :: "addr option"
  Items :: "ItemUpdatePayload list"
  IsTransferComplete :: bool

record GameInfo =
  Version :: Version
  Teams :: bool
  PAL :: bool
  Stage :: uint16
  Players :: "PlayerInfo list"
  MajorScene :: uint8
  MinorScene :: uint8

datatype ParserEvent = Started | Frame | FinalizedFrame | RollbackFrame | Ended

record SlpParserOpts =
  Strict :: bool

record Rollbacks =
  Frames :: "int32 \<rightharpoonup> FrameEntry list"
  Count :: int
  Lengths :: "int list"
  playerIndex :: int8
  lastFrameWasRollback :: bool
  currentRollbackLength :: int

text \<open>
  What a \<open>Trigger\<close> call passes on: the event kind and the payload.  \<open>about\<close> is the frame
  number the calling code holds for that frame (\<open>frameNumber\<close>, \<open>toFinalize\<close>); it is not
  part of what Go sends, and is recorded so that "FinalizedFrame(n)" can be stated.
\<close>

datatype TriggerPayload =
    FrameEntryV FrameEntry
  | GameInfoV "GameInfo option"
  | GameEndV GameEndPayload

datatype Emission =
  Emission (kind: ParserEvent) (about: "int32 option") (sent: TriggerPayload)

text \<open>
  The handler channels are replaced by \<open>emitted\<close>, the sequence of \<open>Trigger\<close> calls made
  so far.
\<close>

record SlpParser =
  Options :: SlpParserOpts
  Frames :: "int32 \<rightharpoonup> FrameEntry"
  Rollbacks :: Rollbacks
  gameInfo :: "GameInfo option"
  GameEnd :: "GameEndPayload option"
  latestFrameIndex :: int32
  lastFinalizedFrame :: int32
  gameInfoComplete :: bool
  maps :: "addr \<Rightarrow> (uint8 \<rightharpoonup> FrameUpdates)"
  nextMap :: addr
  emitted :: "Emission list"

text \<open>
  A call either returns (with its error value and the parser as it left it) or panics
  (with the parser as it was at the panic).
\<close>

datatype outcome = Panic SlpParser | Return "error option" SlpParser

text \<open>The command bytes.\<close>

abbreviation (input) MessageSplitter :: Command where "MessageSplitter \<equiv> 0x10"
abbreviation (input) EventPayloads :: Command where "EventPayloads \<equiv> 0x35"
abbreviation (input) GameStart :: Command where "GameStart \<equiv> 0x36"
abbreviation (input) PreFrameUpdate :: Command where "PreFrameUpdate \<equiv> 0x37"
abbreviation (input) PostFrameUpdate :: Command where "PostFrameUpdate \<equiv> 0x38"
abbreviation (input) GameEnd :: Command where "GameEnd \<equiv> 0x39"
abbreviation (input) FrameStart :: Command where "FrameStart \<equiv> 0x3A"
abbreviation (input) ItemUpdate :: Command where "ItemUpdate \<equiv> 0x3B"
abbreviation (input) FrameBookend :: Command where "FrameBookend \<equiv> 0x3C"
abbreviation (input) GeckoList :: Command where "GeckoList \<equiv> 0x3D"

abbreviation (input) MaxRollbackFrames :: int32 where "MaxRollbackFrames \<equiv> 7"

section \<open>The frame assembler (parser.go)\<close>

definition newRollbacks :: Rollbacks where
  "newRollbacks =
     \<lparr>Rollbacks.Frames = Map.empty, Count = 0, Lengths = [], playerIndex = - 1,
      lastFrameWasRollback = False, currentRollbackLength = 0\<rparr>"

definition NewSlpParser :: "SlpParserOpts \<Rightarrow> SlpParser" where
  "NewSlpParser options =
     \<lparr>Options = options, SlpParser.Frames = Map.empty, Rollbacks = newRollbacks,
      gameInfo = None, SlpParser.GameEnd = None, latestFrameIndex = - 124,
      lastFinalizedFrame = - 124, gameInfoComplete = False,
      maps = (\<lambda>a. Map.empty), nextMap = 0, emitted = []\<rparr>"

text \<open>\<open>Reset\<close> keeps the options and the handlers (here: what was emitted so far).\<close>

definition Reset :: "SlpParser \<Rightarrow> SlpParser" where
  "Reset p =
     p\<lparr>SlpParser.Frames := Map.empty, gameInfo := None, SlpParser.GameEnd := None,
       latestFrameIndex := - 124, lastFinalizedFrame := - 124, gameInfoComplete := False,
       Rollbacks := newRollbacks\<rparr>"

text \<open>
  \<open>checkIfRollbackFrame\<close>: \<open>frame\<close> is the pointer argument, \<open>None\<close> for nil; \<open>int8(playerIndex)\<close>
  keeps the eight bits.  The result is the returned flag and the ledger as updated.
\<close>

definition recordRollback :: "int32 \<Rightarrow> FrameEntry option \<Rightarrow> Rollbacks \<Rightarrow> bool \<times> Rollbacks" where
  "recordRollback frameIndex frame r =
     (let r' =
        (case frame of
           Some f \<Rightarrow>
             r\<lparr>Rollbacks.Frames :=
                 (Rollbacks.Frames r)(frameIndex \<mapsto>
                    (case Rollbacks.Frames r frameIndex of
                       None \<Rightarrow> [f]
                     | Some frames \<Rightarrow> frames @ [f])),
               Count := Count r + 1,
               currentRollbackLength := currentRollbackLength r + 1,
               lastFrameWasRollback := True\<rparr>
         | None \<Rightarrow>
             if lastFrameWasRollback r
             then r\<lparr>Lengths := Lengths r @ [currentRollbackLength r],
                    currentRollbackLength := 0,
                    lastFrameWasRollback := False\<rparr>
             else r)
      in (lastFrameWasRollback r', r'))"

definition checkIfRollbackFrame ::
  "int32 \<Rightarrow> FrameEntry option \<Rightarrow> uint8 \<Rightarrow> Rollbacks \<Rightarrow> bool \<times> Rollbacks" where
  "checkIfRollbackFrame frameIndex frame playerIdx r =
     (if playerIndex r = - 1 then recordRollback frameIndex frame (r\<lparr>playerIndex := playerIdx\<rparr>)
      else if playerIndex r \<noteq> playerIdx then (False, r)
      else recordRollback frameIndex frame r)"

definition Trigger :: "ParserEvent \<Rightarrow> int32 option \<Rightarrow> TriggerPayload \<Rightarrow> SlpParser \<Rightarrow> SlpParser" where
  "Trigger ev n v p = p\<lparr>emitted := emitted p @ [Emission ev n v]\<rparr>"

definition completeGameInfo :: "SlpParser \<Rightarrow> SlpParser" where
  "completeGameInfo p =
     (if gameInfoComplete p then p
      else Trigger Started None (GameInfoV (gameInfo p)) (p\<lparr>gameInfoComplete := True\<rparr>))"

text \<open>\<open>semver.MustParse\<close> of the two version literals of the parser.\<close>

abbreviation v1_6_0 :: Version where "v1_6_0 \<equiv> \<lparr>Major = 1, Minor = 6, Patch = 0\<rparr>"
abbreviation v2_2_0 :: Version where "v2_2_0 \<equiv> \<lparr>Major = 2, Minor = 2, Patch = 0\<rparr>"

definition handleGameStart :: "GameStartPayload \<Rightarrow> SlpParser \<Rightarrow> SlpParser" where
  "handleGameStart payload p =
     (let players = filter (\<lambda>player. PlayerType player \<noteq> Empty) (GameStartPayload.Players payload);
          p1 = p\<lparr>gameInfo := Some
                 \<lparr>GameInfo.Version = GameStartPayload.Version payload,
                  Teams = IsTeams (GameInfoBlock payload),
                  GameInfo.PAL = GameStartPayload.PAL payload,
                  GameInfo.Stage = GameInfoBlock.Stage (GameInfoBlock payload),
                  GameInfo.Players = players,
                  GameInfo.MajorScene = GameStartPayload.MajorScene payload,
                  GameInfo.MinorScene = GameStartPayload.MinorScene payload\<rparr>\<rparr>
      in if GTE (GameStartPayload.Version payload) v1_6_0 then completeGameInfo p1 else p1)"

text \<open>The zero value of \<open>FrameEntry\<close>, which reading an absent key of \<open>p.Frames\<close> gives.\<close>

definition zeroFrameEntry :: FrameEntry where
  "zeroFrameEntry =
     \<lparr>FrameEntry.Players = None, Followers = None, Items = [], IsTransferComplete = False\<rparr>"

text \<open>\<open>getFrame\<close> makes two new maps for a frame that is not stored yet.\<close>

definition getFrame :: "int32 \<Rightarrow> SlpParser \<Rightarrow> FrameEntry \<times> SlpParser" where
  "getFrame frameNumber p =
     (case SlpParser.Frames p frameNumber of
        Some frame \<Rightarrow> (frame, p)
      | None \<Rightarrow>
          (\<lparr>FrameEntry.Players = Some (nextMap p), Followers = Some (Suc (nextMap p)),
            Items = [], IsTransferComplete = False\<rparr>,
           p\<lparr>maps := (maps p)(nextMap p := Map.empty, Suc (nextMap p) := Map.empty),
             nextMap := Suc (Suc (nextMap p))\<rparr>))"

text \<open>Reading a key of a map value: the nil map has no keys.\<close>

definition mapAt :: "SlpParser \<Rightarrow> addr option \<Rightarrow> (uint8 \<rightharpoonup> FrameUpdates)" where
  "mapAt p m = (case m of None \<Rightarrow> Map.empty | Some a \<Rightarrow> maps p a)"

text \<open>
  The strict-mode loop of \<open>finalizeFrames\<close> over \<open>p.gameInfo.Players\<close>: the error it
  returns with, or \<open>None\<close> when it runs to its end.  \<open>n\<close> is \<open>len(p.gameInfo.Players)\<close>.
\<close>

fun checkPlayers ::
  "(uint8 \<rightharpoonup> FrameUpdates) \<Rightarrow> nat \<Rightarrow> int32 \<Rightarrow> int32 \<Rightarrow> PlayerInfo list \<Rightarrow> error option" where
  "checkPlayers m n toFinalize frameNumber [] = None"
| "checkPlayers m n toFinalize frameNumber (player # rest) =
     (case m (Index player) of
        None \<Rightarrow>
          if 2 < n then checkPlayers m n toFinalize frameNumber rest
          else Some (MissingFrameUpdate toFinalize frameNumber Pre (Index player))
      | Some playerFrameInfo \<Rightarrow>
          if FrameUpdates.Pre playerFrameInfo = None \<or> FrameUpdates.Post playerFrameInfo = None
          then Some (MissingFrameUpdate toFinalize frameNumber
                       (if FrameUpdates.Pre playerFrameInfo \<noteq> None then Post else Pre)
                       (Index player))
          else checkPlayers m n toFinalize frameNumber rest)"

lemma sint_succ_sless: "(a :: int32) <s b \<Longrightarrow> sint (a + 1) = sint a + 1"
proof -
  assume "a <s b"
  then have "sint a < sint b" by (simp add: word_sless_alt)
  moreover have "sint b < 2 ^ 31" using sint_range_size [of b] by (simp add: word_size)
  moreover have "- (2 ^ 31) \<le> sint a" using sint_range_size [of a] by (simp add: word_size)
  ultimately have "signed_take_bit 31 (sint a + 1) = sint a + 1"
    by (intro signed_take_bit_int_eq_self) simp_all
  then show ?thesis by (simp add: sint_word_ariths)
qed

function finalizeFrames :: "int32 \<Rightarrow> SlpParser \<Rightarrow> outcome" where
  "finalizeFrames frameNumber p =
     (if lastFinalizedFrame p <s frameNumber then
        (let toFinalize = lastFinalizedFrame p + 1 in
         case SlpParser.Frames p toFinalize of
           None \<Rightarrow> Return None p
         | Some frame \<Rightarrow>
             (if Strict (Options p) then
                (case gameInfo p of
                   None \<Rightarrow> Panic p
                 | Some gi \<Rightarrow>
                     (case checkPlayers (mapAt p (FrameEntry.Players frame))
                             (length (GameInfo.Players gi)) toFinalize frameNumber
                             (GameInfo.Players gi) of
                        Some e \<Rightarrow> Return (Some e) p
                      | None \<Rightarrow>
                          finalizeFrames frameNumber
                            ((Trigger FinalizedFrame (Some toFinalize) (FrameEntryV frame) p)
                               \<lparr>lastFinalizedFrame := toFinalize\<rparr>)))
              else
                finalizeFrames frameNumber
                  ((Trigger FinalizedFrame (Some toFinalize) (FrameEntryV frame) p)
                     \<lparr>lastFinalizedFrame := toFinalize\<rparr>)))
      else Return None p)"
  by pat_completeness auto
termination
  by (relation "measure (\<lambda>(frameNumber, p). nat (sint frameNumber - sint (lastFinalizedFrame p)))")
     (auto simp: sint_succ_sless word_sless_alt Trigger_def)

declare finalizeFrames.simps [simp del]

text \<open>
  \<open>handleFrameUpdate\<close>.  \<open>payload\<close> is the \<open>FrameUpdatePayload\<close> interface value, one of the
  two payload structs; \<open>GetFrameUpdate\<close> reads the embedded struct.
\<close>

datatype FrameUpdatePayload = PreV PreFrameUpdatePayload | PostV PostFrameUpdatePayload

fun GetFrameUpdate :: "FrameUpdatePayload \<Rightarrow> FrameUpdate" where
  "GetFrameUpdate (PreV u) = PreFrameUpdatePayload.FrameUpdate u"
| "GetFrameUpdate (PostV u) = PostFrameUpdatePayload.FrameUpdate u"

text \<open>
  The two \<open>switch updateType\<close> blocks: the type assertion of the chosen case panics
  (\<open>None\<close>) when the payload is the other struct.
\<close>

fun installUpdate :: "FrameUpdateType \<Rightarrow> FrameUpdatePayload \<Rightarrow> FrameUpdates \<Rightarrow> FrameUpdates option" where
  "installUpdate Pre (PreV u) fu = Some (fu\<lparr>FrameUpdates.Pre := Some u\<rparr>)"
| "installUpdate Post (PostV u) fu = Some (fu\<lparr>FrameUpdates.Post := Some u\<rparr>)"
| "installUpdate Pre (PostV u) fu = None"
| "installUpdate Post (PreV u) fu = None"

text \<open>Lines 306 to 314: the frame, the latest index and the rollback ledger.\<close>

definition noteRollback :: "FrameUpdateType \<Rightarrow> int32 \<Rightarrow> bool \<Rightarrow> uint8 \<Rightarrow> SlpParser \<Rightarrow> SlpParser" where
  "noteRollback updateType frameNumber isFollower playerIdx p =
     (if updateType = Pre \<and> \<not> isFollower then
        (let currentFrame =
               (case SlpParser.Frames p frameNumber of None \<Rightarrow> zeroFrameEntry | Some f \<Rightarrow> f);
             (rolled, r) = checkIfRollbackFrame frameNumber (Some currentFrame) playerIdx (Rollbacks p);
             p' = p\<lparr>Rollbacks := r\<rparr>
         in if rolled then Trigger RollbackFrame (Some frameNumber) (FrameEntryV currentFrame) p'
            else p')
      else p)"

text \<open>Lines 357 to 369: the frame is emitted at once for a version up to 2.2.0.\<close>

definition emitOrDefer :: "int32 \<Rightarrow> FrameEntry \<Rightarrow> SlpParser \<Rightarrow> outcome" where
  "emitOrDefer frameNumber frame p =
     (case gameInfo p of
        Some gi \<Rightarrow>
          if LTE (GameInfo.Version gi) v2_2_0 then
            finalizeFrames (frameNumber - 1) (Trigger Frame (Some frameNumber) (FrameEntryV frame) p)
          else
            Return None
              (p\<lparr>SlpParser.Frames :=
                   (SlpParser.Frames p)(frameNumber \<mapsto> frame\<lparr>IsTransferComplete := False\<rparr>)\<rparr>)
      | None \<Rightarrow>
          Return None
            (p\<lparr>SlpParser.Frames :=
                 (SlpParser.Frames p)(frameNumber \<mapsto> frame\<lparr>IsTransferComplete := False\<rparr>)\<rparr>))"

text \<open>
  Lines 300 to 355: the update is stored in the frame's map and the frame in \<open>p.Frames\<close>.
  \<open>Inl\<close> is a panic (a failed type assertion, or an assignment to an entry of a nil
  map), \<open>Inr\<close> the frame and the parser after line 355.
\<close>

definition storeFrameUpdate ::
  "FrameUpdateType \<Rightarrow> FrameUpdatePayload \<Rightarrow> SlpParser \<Rightarrow> SlpParser + FrameEntry \<times> SlpParser" where
  "storeFrameUpdate updateType payload p =
     (let frameUpdate = GetFrameUpdate payload;
          frameNumber = FrameUpdate.FrameNumber frameUpdate;
          isFollower = IsFollower frameUpdate;
          playerIdx = PlayerIndex frameUpdate;
          (frame, p1) = getFrame frameNumber p;
          p2 = noteRollback updateType frameNumber isFollower playerIdx
                 (p1\<lparr>latestFrameIndex := frameNumber\<rparr>);
          m = (if isFollower then Followers frame else FrameEntry.Players frame)
      in case installUpdate updateType payload
                (case mapAt p2 m playerIdx of
                   None \<Rightarrow> \<lparr>FrameUpdates.Pre = None, FrameUpdates.Post = None\<rparr>
                 | Some fu \<Rightarrow> fu) of
           None \<Rightarrow> Inl p2
         | Some fu \<Rightarrow>
             (case m of
                None \<Rightarrow> Inl p2
              | Some a \<Rightarrow>
                  Inr (frame,
                       p2\<lparr>maps := (maps p2)(a := (maps p2 a)(playerIdx \<mapsto> fu)),
                          SlpParser.Frames := (SlpParser.Frames p2)(frameNumber \<mapsto> frame)\<rparr>)))"

definition handleFrameUpdate :: "FrameUpdateType \<Rightarrow> FrameUpdatePayload \<Rightarrow> SlpParser \<Rightarrow> outcome" where
  "handleFrameUpdate updateType payload p =
     (case storeFrameUpdate updateType payload p of
        Inl p' \<Rightarrow> Panic p'
      | Inr (frame, p') \<Rightarrow>
          emitOrDefer (FrameUpdate.FrameNumber (GetFrameUpdate payload)) frame p')"

text \<open>The loop of \<open>handlePostFrameUpdate\<close> over the players, one element at a time.\<close>

definition patchCharacter :: "PostFrameUpdatePayload \<Rightarrow> PlayerInfo \<Rightarrow> PlayerInfo" where
  "patchCharacter payload player =
     (if Index player = PlayerIndex (PostFrameUpdatePayload.FrameUpdate payload) then
        (if InternalCharacterID payload = 0x7 then player\<lparr>CharacterID := 0x13\<rparr>
         else if InternalCharacterID payload = 0x13 then player\<lparr>CharacterID := 0x12\<rparr>
         else player)
      else player)"

definition handlePostFrameUpdate :: "PostFrameUpdatePayload \<Rightarrow> SlpParser \<Rightarrow> outcome" where
  "handlePostFrameUpdate payload p =
     (case handleFrameUpdate Post (PostV payload) p of
        Panic p' \<Rightarrow> Panic p'
      | Return (Some err) p' \<Rightarrow> Return (Some err) p'
      | Return None p1 \<Rightarrow>
          if gameInfoComplete p1 then Return None p1
          else
            (let frameNumber = FrameUpdate.FrameNumber (PostFrameUpdatePayload.FrameUpdate payload) in
             if frameNumber \<le>s - 123 then
               (case gameInfo p1 of
                  None \<Rightarrow> Panic p1
                | Some gi \<Rightarrow>
                    Return None
                      (p1\<lparr>gameInfo := Some
                            (gi\<lparr>GameInfo.Players := map (patchCharacter payload) (GameInfo.Players gi)\<rparr>)\<rparr>))
             else Return None (completeGameInfo p1)))"

definition handleGameEnd :: "GameEndPayload \<Rightarrow> SlpParser \<Rightarrow> outcome" where
  "handleGameEnd payload p =
     (case (if - 124 <s latestFrameIndex p \<and> latestFrameIndex p \<noteq> lastFinalizedFrame p
            then finalizeFrames (latestFrameIndex p) p
            else Return None p) of
        Panic p' \<Rightarrow> Panic p'
      | Return err p1 \<Rightarrow>
          Return err (Trigger Ended None (GameEndV payload) (p1\<lparr>SlpParser.GameEnd := Some payload\<rparr>)))"

definition handleItemUpdate :: "ItemUpdatePayload \<Rightarrow> SlpParser \<Rightarrow> SlpParser" where
  "handleItemUpdate payload p =
     (let (frame, p1) = getFrame (ItemUpdatePayload.FrameNumber payload) p
      in p1\<lparr>SlpParser.Frames :=
              (SlpParser.Frames p1)(ItemUpdatePayload.FrameNumber payload \<mapsto>
                 frame\<lparr>Items := Items frame @ [payload]\<rparr>)\<rparr>)"

text \<open>Lines 423 to 430 of \<open>handleFrameBookend\<close>: the frame is marked and emitted.\<close>

definition bookendFrame :: "FrameBookendPayload \<Rightarrow> SlpParser \<Rightarrow> SlpParser" where
  "bookendFrame payload p =
     (let frameNumber = FrameBookendPayload.FrameNumber payload;
          (frame0, p1) = getFrame frameNumber p;
          frame = frame0\<lparr>IsTransferComplete := True\<rparr>
      in Trigger Frame (Some frameNumber) (FrameEntryV frame)
           (p1\<lparr>SlpParser.Frames := (SlpParser.Frames p1)(frameNumber \<mapsto> frame)\<rparr>))"

definition handleFrameBookend :: "FrameBookendPayload \<Rightarrow> SlpParser \<Rightarrow> outcome" where
  "handleFrameBookend payload p =
     (let latestFinalizedFrame = LatestFinalizedFrame payload;
          frameNumber = FrameBookendPayload.FrameNumber payload;
          p2 = bookendFrame payload p
      in case gameInfo p2 of
           None \<Rightarrow> Panic p2
         | Some gi \<Rightarrow>
             if GameInfo.MajorScene gi = 0x8 \<and> - 123 \<le>s latestFinalizedFrame then
               (if Strict (Options p2) \<and> latestFinalizedFrame <s frameNumber - MaxRollbackFrames
                then Return (Some (RollbackWindowViolation frameNumber)) p2
                else finalizeFrames latestFinalizedFrame p2)
             else finalizeFrames (frameNumber - MaxRollbackFrames) p2)"

text \<open>
  \<open>handleEvent\<close>: the switch on the command; each case asserts the payload's type.  A
  command with no case returns nil.
\<close>

definition handleEvent :: "SlpEvent \<Rightarrow> SlpParser \<Rightarrow> outcome" where
  "handleEvent ev p =
     (if Command ev = GameStart then
        (case Payload ev of GameStartP g \<Rightarrow> Return None (handleGameStart g p) | _ \<Rightarrow> Panic p)
      else if Command ev = PreFrameUpdate then
        (case Payload ev of PreFrameUpdateP u \<Rightarrow> handleFrameUpdate Pre (PreV u) p | _ \<Rightarrow> Panic p)
      else if Command ev = PostFrameUpdate then
        (case Payload ev of PostFrameUpdateP u \<Rightarrow> handlePostFrameUpdate u p | _ \<Rightarrow> Panic p)
      else if Command ev = GameEnd then
        (case Payload ev of GameEndP g \<Rightarrow> handleGameEnd g p | _ \<Rightarrow> Panic p)
      else if Command ev = ItemUpdate then
        (case Payload ev of ItemUpdateP i \<Rightarrow> Return None (handleItemUpdate i p) | _ \<Rightarrow> Panic p)
      else if Command ev = FrameBookend then
        (case Payload ev of FrameBookendP b \<Rightarrow> handleFrameBookend b p | _ \<Rightarrow> Panic p)
      else Return None p)"

text \<open>
  \<open>ParseReplay\<close> over what the channel delivers until it is closed.  \<open>*eventResult.Event\<close>
  dereferences the event pointer, \<open>None\<close> for nil.
\<close>

record SlpEventResult =
  Event :: "SlpEvent option"
  Error :: "error option"

fun ParseReplay :: "SlpEventResult list \<Rightarrow> SlpParser \<Rightarrow> outcome" where
  "ParseReplay [] p = Return None p"
| "ParseReplay (eventResult # rest) p =
     (case Error eventResult of
        Some e \<Rightarrow> Return (Some e) p
      | None \<Rightarrow>
          (case Event eventResult of
             None \<Rightarrow> Panic p
           | Some ev \<Rightarrow>
               (case handleEvent ev p of
                  Panic p' \<Rightarrow> Panic p'
                | Return (Some err) p' \<Rightarrow> Return (Some err) p'
                | Return None p' \<Rightarrow> ParseReplay rest p')))"

text \<open>What a call's outcome shows: whether it panicked, its error, the parser it left.\<close>

fun panicked :: "outcome \<Rightarrow> bool" where
  "panicked (Panic p) = True"
| "panicked (Return e p) = False"

fun errorOf :: "outcome \<Rightarrow> error option" where
  "errorOf (Panic p) = None"
| "errorOf (Return e p) = e"

fun parserOf :: "outcome \<Rightarrow> SlpParser" where
  "parserOf (Panic p) = p"
| "parserOf (Return e p) = p"

section \<open>Inputs of the scenarios\<close>

text \<open>
  Payloads with the fields the scenarios name and zero everywhere else, and the event
  results a reader delivers them in.
\<close>

definition frameUpdateAt :: "int32 \<Rightarrow> uint8 \<Rightarrow> FrameUpdate" where
  "frameUpdateAt n i =
     \<lparr>FrameUpdate.FrameNumber = n, PlayerIndex = i, IsFollower = False, ActionStateID = 0,
      FrameUpdate.XPosition = 0, FrameUpdate.YPosition = 0, FrameUpdate.FacingDirection = 0,
      Percent = 0\<rparr>"

definition preAt :: "int32 \<Rightarrow> uint8 \<Rightarrow> PreFrameUpdatePayload" where
  "preAt n i =
     \<lparr>PreFrameUpdatePayload.FrameUpdate = frameUpdateAt n i,
      PreFrameUpdatePayload.RandomSeed = 0, JoystickX = 0, JoystickY = 0, CStickX = 0,
      CStickY = 0, PreFrameUpdatePayload.Trigger = 0, ProcessedButtons = 0, PhysicalButtons = 0,
      PhysicalLTrigger = 0, PhysicalRTrigger = 0, XAnalogUCF = 0\<rparr>"

definition postAt :: "int32 \<Rightarrow> uint8 \<Rightarrow> uint8 \<Rightarrow> PostFrameUpdatePayload" where
  "postAt n i c =
     \<lparr>PostFrameUpdatePayload.FrameUpdate = frameUpdateAt n i, InternalCharacterID = c,
      ShieldSize = 0, LastHittingAttackID = 0, CurrentComboCount = 0, LastHitBy = 0,
      StocksRemaining = 0, ActionStateFrameCounter = 0, StateBitFlags1 = 0, StateBitFlags2 = 0,
      StateBitFlags3 = 0, StateBitFlags4 = 0, StateBitFlags5 = 0, MiscAS = 0, Airborne = False,
      LastGroundID = 0, JumpsRemaining = 0, LCancelStatus = 0, HurtboxCollisionState = 0,
      SelfInducedAirXSpeed = 0, SelfInducedYSpeed = 0, AttackBasedXSpeed = 0,
      AttackBasedYSpeed = 0, SelfInducedGroundXSpeed = 0, HitlagFramesRemaining = 0,
      AnimationIndex = 0\<rparr>"

text \<open>A player slot as the decoder fills it: \<open>Index\<close> 0 and \<open>Port\<close> 1 in every slot.\<close>

definition playerSlot :: "PlayerType \<Rightarrow> uint8 \<Rightarrow> PlayerInfo" where
  "playerSlot t c =
     \<lparr>Index = 0, Port = 1, CharacterID = c, PlayerType = t, StockStartCount = 4,
      CostumeIndex = 0, TeamShade = 0, Handicap = 0, TeamID = 0, PlayerBitfield = 0,
      CPULevel = 0, OffenseRatio = 0, DefenseRatio = 0, ModelScale = 0, DashbackFix = 0,
      ShieldDropFix = 0, Nametag = [], DisplayName = [], ConnectCode = [], SlippiUID = []\<rparr>"

definition zeroGameInfoBlock :: GameInfoBlock where
  "zeroGameInfoBlock =
     \<lparr>GameBitfield1 = 0, GameBitfield2 = 0, GameBitfield3 = 0, GameBitfield4 = 0,
      BombRain = 0, IsTeams = False, ItemSpawnBehavior = 0, SelfDestructScoreValue = 0,
      GameInfoBlock.Stage = 0, GameTimer = 0, ItemSpawnBitfield1 = 0, ItemSpawnBitfield2 = 0,
      ItemSpawnBitfield3 = 0, ItemSpawnBitfield4 = 0, ItemSpawnBitfield5 = 0, DamageRatio = 0\<rparr>"

text \<open>
  A game start of the given version in the in-game scene (major scene 8): one Human in
  slot 0 with character \<open>c\<close>, three Empty slots.
\<close>

definition gameStartOf :: "Version \<Rightarrow> uint8 \<Rightarrow> GameStartPayload" where
  "gameStartOf v c =
     \<lparr>GameStartPayload.Version = v, GameInfoBlock = zeroGameInfoBlock,
      GameStartPayload.Players = [playerSlot Human c, playerSlot Empty 0, playerSlot Empty 0,
                                  playerSlot Empty 0],
      GameStartPayload.RandomSeed = 0, GameStartPayload.PAL = False, FrozenPS = False,
      GameStartPayload.MajorScene = 0x8, GameStartPayload.MinorScene = 0, LanguageOption = 0\<rparr>"

definition delivered :: "Command \<Rightarrow> Payload \<Rightarrow> SlpEventResult" where
  "delivered c v = \<lparr>Event = Some \<lparr>Command = c, Payload = v\<rparr>, Error = None\<rparr>"

abbreviation v3_0_0 :: Version where "v3_0_0 \<equiv> \<lparr>Major = 3, Minor = 0, Patch = 0\<rparr>"

text \<open>
  Scenario 3: frames -123 and -122 are sent once, the pre-frame update of frame -122 is
  sent again, and then the pre-frame update of frame -121 arrives.
\<close>

definition rollbackReplay :: "SlpEventResult list" where
  "rollbackReplay =
     [delivered GameStart (GameStartP (gameStartOf v3_0_0 0)),
      delivered PreFrameUpdate (PreFrameUpdateP (preAt (- 123) 0)),
      delivered PostFrameUpdate (PostFrameUpdateP (postAt (- 123) 0 0)),
      delivered FrameBookend (FrameBookendP \<lparr>FrameBookendPayload.FrameNumber = - 123, LatestFinalizedFrame = - 123\<rparr>),
      delivered PreFrameUpdate (PreFrameUpdateP (preAt (- 122) 0)),
      delivered PostFrameUpdate (PostFrameUpdateP (postAt (- 122) 0 0)),
      delivered FrameBookend (FrameBookendP \<lparr>FrameBookendPayload.FrameNumber = - 122, LatestFinalizedFrame = - 123\<rparr>),
      delivered PreFrameUpdate (PreFrameUpdateP (preAt (- 122) 0)),
      delivered PreFrameUpdate (PreFrameUpdateP (preAt (- 121) 0))]"

text \<open>
  A replay of version 1.5.0, which has no frame bookends: two frames, each with its
  pre- and post-frame update.
\<close>

abbreviation v1_5_0 :: Version where "v1_5_0 \<equiv> \<lparr>Major = 1, Minor = 5, Patch = 0\<rparr>"


text \<open>A strict-mode replay that ends after the pre-frame update of its first frame.\<close>

definition missingPostReplay :: "SlpEventResult list" where
  "missingPostReplay =
     [delivered GameStart (GameStartP (gameStartOf v3_0_0 0)),
      delivered PreFrameUpdate (PreFrameUpdateP (preAt (- 123) 0))]"


text \<open>
  Scenario 2, for a version \<open>v\<close> and a character \<open>c\<close> in slot 0 at the game start: one
  bookended frame whose post-frame update has internal character 0x13, then the game end.
\<close>

definition scenario2 :: "Version \<Rightarrow> uint8 \<Rightarrow> SlpEventResult list" where
  "scenario2 v c =
     [delivered GameStart (GameStartP (gameStartOf v c)),
      delivered PreFrameUpdate (PreFrameUpdateP (preAt (- 123) 0)),
      delivered PostFrameUpdate (PostFrameUpdateP (postAt (- 123) 0 0x13)),
      delivered FrameBookend (FrameBookendP \<lparr>FrameBookendPayload.FrameNumber = - 123, LatestFinalizedFrame = - 123\<rparr>),
      delivered GameEnd (GameEndP \<lparr>GameEndMethod = 2, LRASInitiator = - 1\<rparr>)]"

text \<open>The character ids of \<open>gameInfo.Players\<close>, in order; \<open>None\<close> while \<open>gameInfo\<close> is nil.\<close>

definition characterIDs :: "SlpParser \<Rightarrow> uint8 list option" where
  "characterIDs p = map_option (\<lambda>gi. map CharacterID (GameInfo.Players gi)) (gameInfo p)"

text \<open>The equations that run the parser on a concrete replay.\<close>

lemmas run_defs =
  delivered_def NewSlpParser_def newRollbacks_def handleEvent_def handleGameStart_def
  gameStartOf_def playerSlot_def zeroGameInfoBlock_def GTE_def LTE_def Compare_def
  completeGameInfo_def Trigger_def handleFrameUpdate_def storeFrameUpdate_def preAt_def postAt_def
  frameUpdateAt_def getFrame_def noteRollback_def checkIfRollbackFrame_def recordRollback_def
  zeroFrameEntry_def mapAt_def emitOrDefer_def handlePostFrameUpdate_def patchCharacter_def
  handleFrameBookend_def bookendFrame_def handleGameEnd_def handleItemUpdate_def
  finalizeFrames.simps Let_def

text \<open>The same without the version order, for a version that is not given.\<close>

lemmas run_defs' =
  delivered_def NewSlpParser_def newRollbacks_def handleEvent_def handleGameStart_def
  gameStartOf_def playerSlot_def zeroGameInfoBlock_def
  completeGameInfo_def Trigger_def handleFrameUpdate_def storeFrameUpdate_def preAt_def postAt_def
  frameUpdateAt_def getFrame_def noteRollback_def checkIfRollbackFrame_def recordRollback_def
  zeroFrameEntry_def mapAt_def emitOrDefer_def handlePostFrameUpdate_def patchCharacter_def
  handleFrameBookend_def bookendFrame_def handleGameEnd_def handleItemUpdate_def
  finalizeFrames.simps Let_def

section \<open>Properties of the frame assembler\<close>

subsection \<open>What the statements speak of\<close>

text \<open>
  \<open>finalizedLog\<close> reads off the emitted events which frames were finalized, in order.
  \<open>ordered\<close> is the invariant behind I3 and I4: the finalized frame numbers increase
  strictly and none exceeds \<open>lastFinalizedFrame\<close>.  \<open>steadily p q\<close> relates a parser to a
  later one: nothing emitted is taken back, \<open>lastFinalizedFrame\<close> has not gone down, the
  game info and its completion were not lost, and \<open>ordered\<close> was kept.  \<open>quietly p q\<close> is
  the special case of code that finalizes nothing.
\<close>

definition finalizedLog :: "Emission list \<Rightarrow> int32 option list" where
  "finalizedLog es = map about (filter (\<lambda>e. kind e = FinalizedFrame) es)"

definition ordered :: "SlpParser \<Rightarrow> bool" where
  "ordered p \<longleftrightarrow>
     (\<exists>ns. finalizedLog (emitted p) = map Some ns \<and> sorted_wrt (<s) ns \<and>
           (\<forall>n\<in>set ns. n \<le>s lastFinalizedFrame p))"

definition steadily :: "SlpParser \<Rightarrow> SlpParser \<Rightarrow> bool" where
  "steadily p q \<longleftrightarrow>
     lastFinalizedFrame p \<le>s lastFinalizedFrame q \<and> Options q = Options p \<and>
     (gameInfo p \<noteq> None \<longrightarrow> gameInfo q \<noteq> None) \<and>
     (gameInfoComplete p \<longrightarrow> gameInfoComplete q) \<and>
     (\<exists>suf. emitted q = emitted p @ suf) \<and>
     (ordered p \<longrightarrow> ordered q)"

definition quietly :: "SlpParser \<Rightarrow> SlpParser \<Rightarrow> bool" where
  "quietly p q \<longleftrightarrow>
     lastFinalizedFrame q = lastFinalizedFrame p \<and> gameInfo q = gameInfo p \<and>
     Options q = Options p \<and> gameInfoComplete q = gameInfoComplete p \<and>
     (\<exists>suf. emitted q = emitted p @ suf \<and> (\<forall>e\<in>set suf. kind e \<noteq> FinalizedFrame))"


subsection \<open>Finalization\<close>

lemma finalizedLog_append: "finalizedLog (a @ b) = finalizedLog a @ finalizedLog b"
  by (simp add: finalizedLog_def)

lemma finalizedLog_others: "\<forall>e\<in>set suf. kind e \<noteq> FinalizedFrame \<Longrightarrow> finalizedLog suf = []"
  by (induction suf) (simp_all add: finalizedLog_def)

lemma quietly_refl: "quietly p p"
  by (simp add: quietly_def)

lemma quietly_trans: "quietly p q \<Longrightarrow> quietly q r \<Longrightarrow> quietly p r"
  by (auto simp: quietly_def)

lemma steadily_refl: "steadily p p"
  by (simp add: steadily_def)

lemma steadily_trans: "steadily p q \<Longrightarrow> steadily q r \<Longrightarrow> steadily p r"
  by (auto simp: steadily_def word_sle_eq)

lemma quietly_steadily: "quietly p q \<Longrightarrow> steadily p q"
  by (auto simp: quietly_def steadily_def ordered_def finalizedLog_append finalizedLog_others)

lemma getFrame_quietly: "getFrame n p = (f, q) \<Longrightarrow> quietly p q"
  by (auto simp: getFrame_def quietly_def split: option.splits)

lemma noteRollback_quietly: "quietly p (noteRollback t n b i p)"
  by (auto simp: noteRollback_def quietly_def Trigger_def Let_def split: prod.splits)

lemma Trigger_quietly: "ev \<noteq> FinalizedFrame \<Longrightarrow> quietly p (Trigger ev n v p)"
  by (simp add: quietly_def Trigger_def)

lemma quietly_fields:
  "quietly p (p\<lparr>latestFrameIndex := n\<rparr>)"
  "quietly p (p\<lparr>SlpParser.Frames := fs\<rparr>)"
  "quietly p (p\<lparr>maps := m\<rparr>)"
  "quietly p (p\<lparr>SlpParser.GameEnd := g\<rparr>)"
  by (simp_all add: quietly_def)

lemma quietly_stored: "quietly p q \<Longrightarrow> quietly p (q\<lparr>maps := m, SlpParser.Frames := fs\<rparr>)"
  by (simp add: quietly_def)

lemma storeFrameUpdate_quietly:
  "quietly p (case storeFrameUpdate t u p of Inl q \<Rightarrow> q | Inr (frame, q) \<Rightarrow> q)"
proof -
  let ?n = "FrameUpdate.FrameNumber (GetFrameUpdate u)"
  obtain f p1 where g: "getFrame ?n p = (f, p1)" by (cases "getFrame ?n p")
  define p2 where "p2 = noteRollback t ?n (IsFollower (GetFrameUpdate u)) (PlayerIndex (GetFrameUpdate u))
                          (p1\<lparr>latestFrameIndex := ?n\<rparr>)"
  have "quietly p1 (p1\<lparr>latestFrameIndex := ?n\<rparr>)" by (rule quietly_fields)
  then have q2: "quietly p p2"
    unfolding p2_def using getFrame_quietly [OF g] noteRollback_quietly quietly_trans by blast
  define m where "m = (if IsFollower (GetFrameUpdate u) then Followers f else FrameEntry.Players f)"
  define r where "r = installUpdate t u
      (case mapAt p2 m (PlayerIndex (GetFrameUpdate u)) of
         None \<Rightarrow> \<lparr>FrameUpdates.Pre = None, FrameUpdates.Post = None\<rparr> | Some fu \<Rightarrow> fu)"
  have eq: "storeFrameUpdate t u p =
      (case r of None \<Rightarrow> Inl p2
       | Some fu \<Rightarrow> (case m of None \<Rightarrow> Inl p2
           | Some a \<Rightarrow> Inr (f, p2\<lparr>maps := (maps p2)(a := (maps p2 a)(PlayerIndex (GetFrameUpdate u) \<mapsto> fu)),
                                  SlpParser.Frames := (SlpParser.Frames p2)(?n \<mapsto> f)\<rparr>)))"
    unfolding storeFrameUpdate_def Let_def g prod.case p2_def m_def r_def ..
  show ?thesis
    unfolding eq by (cases r; cases m) (simp_all add: q2 quietly_stored)
qed
lemma finalize_step_steadily:
  assumes "lastFinalizedFrame p <s t"
  shows "steadily p ((Trigger FinalizedFrame (Some (lastFinalizedFrame p + 1)) v p)
                       \<lparr>lastFinalizedFrame := lastFinalizedFrame p + 1\<rparr>)"
proof -
  let ?q = "(Trigger FinalizedFrame (Some (lastFinalizedFrame p + 1)) v p)
                       \<lparr>lastFinalizedFrame := lastFinalizedFrame p + 1\<rparr>"
  have s: "sint (lastFinalizedFrame p + 1) = sint (lastFinalizedFrame p) + 1"
    using assms by (rule sint_succ_sless)
  have em: "emitted ?q = emitted p @ [Emission FinalizedFrame (Some (lastFinalizedFrame p + 1)) v]"
    and lf: "lastFinalizedFrame ?q = lastFinalizedFrame p + 1"
    and rest: "Options ?q = Options p" "gameInfo ?q = gameInfo p" "gameInfoComplete ?q = gameInfoComplete p"
    by (simp_all add: Trigger_def)
  have "ordered ?q" if "ordered p"
  proof -
    from that obtain ns where ns: "finalizedLog (emitted p) = map Some ns" "sorted_wrt (<s) ns"
      "\<forall>n\<in>set ns. n \<le>s lastFinalizedFrame p" by (auto simp: ordered_def)
    have "finalizedLog (emitted ?q) = map Some (ns @ [lastFinalizedFrame p + 1])"
      unfolding em finalizedLog_append ns(1) by (simp add: finalizedLog_def)
    moreover have "sorted_wrt (<s) (ns @ [lastFinalizedFrame p + 1])"
      using ns(2,3) s by (auto simp: sorted_wrt_append word_sle_eq word_sless_alt)
    moreover have "\<forall>n\<in>set (ns @ [lastFinalizedFrame p + 1]). n \<le>s lastFinalizedFrame ?q"
      unfolding lf using ns(3) s by (auto simp: word_sle_eq)
    ultimately show ?thesis
      unfolding ordered_def by blast
  qed
  then show ?thesis
    unfolding steadily_def em lf rest using s by (simp add: word_sle_eq)
qed

lemma finalizeFrames_unfold:
  "finalizeFrames t p =
     (if lastFinalizedFrame p <s t then
        (case SlpParser.Frames p (lastFinalizedFrame p + 1) of
           None \<Rightarrow> Return None p
         | Some frame \<Rightarrow>
             (if Strict (Options p) then
                (case gameInfo p of
                   None \<Rightarrow> Panic p
                 | Some gi \<Rightarrow>
                     (case checkPlayers (mapAt p (FrameEntry.Players frame))
                             (length (GameInfo.Players gi)) (lastFinalizedFrame p + 1) t
                             (GameInfo.Players gi) of
                        Some e \<Rightarrow> Return (Some e) p
                      | None \<Rightarrow>
                          finalizeFrames t
                            ((Trigger FinalizedFrame (Some (lastFinalizedFrame p + 1)) (FrameEntryV frame) p)
                               \<lparr>lastFinalizedFrame := lastFinalizedFrame p + 1\<rparr>)))
              else
                finalizeFrames t
                  ((Trigger FinalizedFrame (Some (lastFinalizedFrame p + 1)) (FrameEntryV frame) p)
                     \<lparr>lastFinalizedFrame := lastFinalizedFrame p + 1\<rparr>)))
      else Return None p)"
  by (subst finalizeFrames.simps) (simp only: Let_def)

lemma finalizeFrames_steadily: "steadily p (parserOf (finalizeFrames t p))"
proof (induction t p rule: finalizeFrames.induct)
  case (1 t p)
  let ?n = "lastFinalizedFrame p + 1"
  show ?case
  proof (cases "lastFinalizedFrame p <s t")
    case False
    then have "finalizeFrames t p = Return None p" by (subst finalizeFrames_unfold) simp
    then show ?thesis by (simp add: steadily_refl)
  next
    case lt: True
    show ?thesis
    proof (cases "SlpParser.Frames p ?n")
      case None
      then have "finalizeFrames t p = Return None p" using lt by (subst finalizeFrames_unfold) simp
      then show ?thesis by (simp add: steadily_refl)
    next
      case fr: (Some frame)
      let ?q = "(Trigger FinalizedFrame (Some ?n) (FrameEntryV frame) p)\<lparr>lastFinalizedFrame := ?n\<rparr>"
      have st: "steadily p ?q" using lt by (rule finalize_step_steadily)
      show ?thesis
      proof (cases "Strict (Options p)")
        case False
        have ih: "steadily ?q (parserOf (finalizeFrames t ?q))"
          using "1.IH"(2) [OF lt refl fr False] .
        have eq: "finalizeFrames t p = finalizeFrames t ?q"
          using lt fr False by (subst finalizeFrames_unfold) simp
        show ?thesis unfolding eq by (rule steadily_trans [OF st ih])
      next
        case strict: True
        show ?thesis
        proof (cases "gameInfo p")
          case None
          then have "finalizeFrames t p = Panic p"
            using lt fr strict by (subst finalizeFrames_unfold) simp
          then show ?thesis by (simp add: steadily_refl)
        next
          case gi: (Some gi)
          show ?thesis
          proof (cases "checkPlayers (mapAt p (FrameEntry.Players frame)) (length (GameInfo.Players gi))
                           ?n t (GameInfo.Players gi)")
            case (Some e)
            then have "finalizeFrames t p = Return (Some e) p"
              using lt fr strict gi by (subst finalizeFrames_unfold) simp
            then show ?thesis by (simp add: steadily_refl)
          next
            case None
            have ih: "steadily ?q (parserOf (finalizeFrames t ?q))"
              using "1.IH"(1) [OF lt refl fr strict gi None] .
            have eq: "finalizeFrames t p = finalizeFrames t ?q"
              using lt fr strict gi None by (subst finalizeFrames_unfold) simp
            show ?thesis unfolding eq by (rule steadily_trans [OF st ih])
          qed
        qed
      qed
    qed
  qed
qed


subsection \<open>Every handler goes on steadily\<close>

lemma steadily_quietly: "steadily p q \<Longrightarrow> quietly q r \<Longrightarrow> steadily p r"
  by (rule steadily_trans [OF _ quietly_steadily])

lemma steadily_gameInfo: "steadily p (p\<lparr>gameInfo := Some gi\<rparr>)"
  by (simp add: steadily_def ordered_def)

lemma completeGameInfo_steadily: "steadily p (completeGameInfo p)"
  by (simp add: completeGameInfo_def steadily_def ordered_def Trigger_def finalizedLog_def)

lemma handleGameStart_steadily: "steadily p (handleGameStart g p)"
  unfolding handleGameStart_def Let_def
  by (simp add: steadily_gameInfo steadily_trans [OF steadily_gameInfo completeGameInfo_steadily])

lemma emitOrDefer_steadily: "steadily p (parserOf (emitOrDefer n frame p))"
proof (cases "gameInfo p")
  case None
  then show ?thesis
    by (simp add: emitOrDefer_def quietly_steadily [OF quietly_fields(2)])
next
  case (Some gi)
  show ?thesis
  proof (cases "LTE (GameInfo.Version gi) v2_2_0")
    case True
    have "quietly p (Trigger Frame (Some n) (FrameEntryV frame) p)"
      by (rule Trigger_quietly) simp
    then have "steadily p (parserOf (finalizeFrames (n - 1) (Trigger Frame (Some n) (FrameEntryV frame) p)))"
      by (rule steadily_trans [OF quietly_steadily finalizeFrames_steadily])
    then show ?thesis using Some True by (simp add: emitOrDefer_def)
  next
    case False
    then show ?thesis using Some
      by (simp add: emitOrDefer_def quietly_steadily [OF quietly_fields(2)])
  qed
qed

lemma handleFrameUpdate_steadily: "steadily p (parserOf (handleFrameUpdate t u p))"
proof (cases "storeFrameUpdate t u p")
  case (Inl q)
  then show ?thesis
    using storeFrameUpdate_quietly [of p t u] by (simp add: handleFrameUpdate_def quietly_steadily)
next
  case (Inr fq)
  obtain frame q where fq: "fq = (frame, q)" by (cases fq)
  have "quietly p q" using storeFrameUpdate_quietly [of p t u] Inr fq by simp
  then have "steadily p (parserOf (emitOrDefer (FrameUpdate.FrameNumber (GetFrameUpdate u)) frame q))"
    by (rule steadily_trans [OF quietly_steadily emitOrDefer_steadily])
  then show ?thesis using Inr fq by (simp add: handleFrameUpdate_def)
qed

lemma handlePostFrameUpdate_steadily: "steadily p (parserOf (handlePostFrameUpdate u p))"
proof (cases "handleFrameUpdate Post (PostV u) p")
  case (Panic q)
  then show ?thesis using handleFrameUpdate_steadily [of p Post "PostV u"]
    by (simp add: handlePostFrameUpdate_def)
next
  case (Return e q)
  then have st: "steadily p q" using handleFrameUpdate_steadily [of p Post "PostV u"] by simp
  show ?thesis
  proof (cases e)
    case (Some err)
    then show ?thesis using Return st by (simp add: handlePostFrameUpdate_def)
  next
    case None
    have a: "steadily p (completeGameInfo q)"
      by (rule steadily_trans [OF st completeGameInfo_steadily])
    have b: "steadily p (q\<lparr>gameInfo := Some gi\<rparr>)" for gi
      by (rule steadily_trans [OF st steadily_gameInfo])
    show ?thesis using Return None st a b
      by (simp add: handlePostFrameUpdate_def Let_def split: option.split)
  qed
qed

lemma handleGameEnd_steadily: "steadily p (parserOf (handleGameEnd g p))"
proof -
  define r where "r = (if - 124 <s latestFrameIndex p \<and> latestFrameIndex p \<noteq> lastFinalizedFrame p
            then finalizeFrames (latestFrameIndex p) p else Return None p)"
  have st: "steadily p (parserOf r)"
    by (simp add: r_def finalizeFrames_steadily steadily_refl)
  have q: "quietly q (Trigger Ended None (GameEndV g) (q\<lparr>SlpParser.GameEnd := Some g\<rparr>))" for q
    by (simp add: quietly_def Trigger_def)
  have eq: "handleGameEnd g p = (case r of Panic p' \<Rightarrow> Panic p'
      | Return err p1 \<Rightarrow> Return err (Trigger Ended None (GameEndV g) (p1\<lparr>SlpParser.GameEnd := Some g\<rparr>)))"
    unfolding handleGameEnd_def r_def ..
  show ?thesis
    unfolding eq using st by (cases r) (simp_all add: steadily_quietly [OF _ q])
qed

lemma handleItemUpdate_quietly: "quietly p (handleItemUpdate i p)"
proof -
  obtain f p1 where g: "getFrame (ItemUpdatePayload.FrameNumber i) p = (f, p1)"
    by (cases "getFrame (ItemUpdatePayload.FrameNumber i) p")
  show ?thesis
    unfolding handleItemUpdate_def Let_def g prod.case
    by (rule quietly_trans [OF getFrame_quietly [OF g] quietly_fields(2)])
qed

lemma bookendFrame_quietly: "quietly p (bookendFrame b p)"
proof -
  obtain f p1 where g: "getFrame (FrameBookendPayload.FrameNumber b) p = (f, p1)"
    by (cases "getFrame (FrameBookendPayload.FrameNumber b) p")
  have "quietly p1 (Trigger Frame n v (p1\<lparr>SlpParser.Frames := fs\<rparr>))" for n v fs
    by (simp add: quietly_def Trigger_def)
  then show ?thesis
    unfolding bookendFrame_def Let_def g prod.case
    by (rule quietly_trans [OF getFrame_quietly [OF g]])
qed

lemma handleFrameBookend_steadily: "steadily p (parserOf (handleFrameBookend b p))"
proof -
  let ?q = "bookendFrame b p"
  have q: "steadily p ?q" by (rule quietly_steadily [OF bookendFrame_quietly])
  have f: "steadily p (parserOf (finalizeFrames n ?q))" for n
    by (rule steadily_trans [OF q finalizeFrames_steadily])
  show ?thesis
    unfolding handleFrameBookend_def Let_def using q f
    by (simp split: option.split)
qed

lemma handleEvent_steadily: "steadily p (parserOf (handleEvent ev p))"
  unfolding handleEvent_def
  by (simp add: steadily_refl handleGameStart_steadily handleFrameUpdate_steadily
      handlePostFrameUpdate_steadily handleGameEnd_steadily handleFrameBookend_steadily
      quietly_steadily [OF handleItemUpdate_quietly] split: Payload.split)

lemma ParseReplay_steadily: "steadily p (parserOf (ParseReplay rs p))"
proof (induction rs arbitrary: p)
  case Nil
  show ?case by (simp add: steadily_refl)
next
  case (Cons r rs)
  show ?case
  proof (cases "Error r")
    case (Some e)
    then show ?thesis by (simp add: steadily_refl)
  next
    case None
    note noerr = this
    show ?thesis
    proof (cases "Event r")
      case None
      then show ?thesis using noerr by (simp add: steadily_refl)
    next
      case (Some ev)
      show ?thesis
      proof (cases "handleEvent ev p")
        case (Panic q)
        then show ?thesis using noerr Some handleEvent_steadily [of p ev] by simp
      next
        case (Return e q)
        then have st: "steadily p q" using handleEvent_steadily [of p ev] by simp
        show ?thesis
        proof (cases e)
          case None
          then show ?thesis using noerr Some Return steadily_trans [OF st Cons.IH [of q]] by simp
        next
          case (Some err)
          then show ?thesis using noerr \<open>Event r = Some ev\<close> Return st by simp
        qed
      qed
    qed
  qed
qed


subsection \<open>Facts about finalization\<close>

lemma strictly_sorted_distinct: "sorted_wrt (<s) (ns :: int32 list) \<Longrightarrow> distinct ns"
  by (induction ns) (auto simp: word_sless_alt)

lemma NewSlpParser_ordered: "ordered (NewSlpParser opts)"
  by (simp add: ordered_def NewSlpParser_def finalizedLog_def)

lemma finalizeFrames_gap:
  "lastFinalizedFrame p <s t \<Longrightarrow> SlpParser.Frames p (lastFinalizedFrame p + 1) = None \<Longrightarrow>
   finalizeFrames t p = Return None p"
  by (subst finalizeFrames_unfold) simp

lemma checkPlayers_error:
  "checkPlayers m n f t ps = Some e \<Longrightarrow> \<exists>s i. e = MissingFrameUpdate f t s i"
  by (induction ps) (auto split: option.splits if_splits)

lemma finalizeFrames_error:
  "errorOf (finalizeFrames t p) = Some e \<Longrightarrow> \<exists>f s i. e = MissingFrameUpdate f t s i"
proof (induction t p rule: finalizeFrames.induct)
  case (1 t p)
  let ?n = "lastFinalizedFrame p + 1"
  show ?case
  proof (cases "lastFinalizedFrame p <s t")
    case False
    then have "finalizeFrames t p = Return None p" by (subst finalizeFrames_unfold) simp
    then show ?thesis using "1.prems" by simp
  next
    case lt: True
    show ?thesis
    proof (cases "SlpParser.Frames p ?n")
      case None
      then have "finalizeFrames t p = Return None p" using lt by (subst finalizeFrames_unfold) simp
      then show ?thesis using "1.prems" by simp
    next
      case fr: (Some frame)
      let ?q = "(Trigger FinalizedFrame (Some ?n) (FrameEntryV frame) p)\<lparr>lastFinalizedFrame := ?n\<rparr>"
      show ?thesis
      proof (cases "Strict (Options p)")
        case False
        have eq: "finalizeFrames t p = finalizeFrames t ?q"
          using lt fr False by (subst finalizeFrames_unfold) simp
        show ?thesis using "1.IH"(2) [OF lt refl fr False] "1.prems" unfolding eq .
      next
        case strict: True
        show ?thesis
        proof (cases "gameInfo p")
          case None
          then have "finalizeFrames t p = Panic p"
            using lt fr strict by (subst finalizeFrames_unfold) simp
          then show ?thesis using "1.prems" by simp
        next
          case gi: (Some gi)
          show ?thesis
          proof (cases "checkPlayers (mapAt p (FrameEntry.Players frame)) (length (GameInfo.Players gi))
                           ?n t (GameInfo.Players gi)")
            case (Some e')
            then have "finalizeFrames t p = Return (Some e') p"
              using lt fr strict gi by (subst finalizeFrames_unfold) simp
            then have "e = e'" using "1.prems" by simp
            then show ?thesis using checkPlayers_error [OF Some] by blast
          next
            case None
            have eq: "finalizeFrames t p = finalizeFrames t ?q"
              using lt fr strict gi None by (subst finalizeFrames_unfold) simp
            show ?thesis using "1.IH"(1) [OF lt refl fr strict gi None] "1.prems" unfolding eq .
          qed
        qed
      qed
    qed
  qed
qed


subsection \<open>Facts about frame updates and versions\<close>


lemma below_1_6_0_LTE: "\<not> GTE v v1_6_0 \<Longrightarrow> LTE v v2_2_0"
  unfolding GTE_def LTE_def Compare_def
  by (auto simp: word_less_nat_alt word_unat_eq_iff split: if_splits)


section \<open>The claims\<close>




text \<open>
  C7: while one parser handles any sequence of event results with no \<open>Reset\<close>,
  \<open>lastFinalizedFrame\<close> never decreases (from any parser state); the \<open>FinalizedFrame\<close>
  events a new parser emits are about frame numbers that increase strictly, so each frame
  is finalized at most once; and when frame \<open>lastFinalizedFrame + 1\<close> is not in the frame
  map, \<open>finalizeFrames\<close> stops there, returns no error and changes nothing.
\<close>

theorem finalization_in_order:
  "lastFinalizedFrame p \<le>s lastFinalizedFrame (parserOf (ParseReplay rs p)) \<and>
   (\<exists>ns. finalizedLog (emitted (parserOf (ParseReplay rs (NewSlpParser opts)))) = map Some ns \<and>
         sorted_wrt (<s) ns \<and> distinct ns) \<and>
   (lastFinalizedFrame q <s t \<and> SlpParser.Frames q (lastFinalizedFrame q + 1) = None \<longrightarrow>
      finalizeFrames t q = Return None q)"
proof -
  have "steadily p (parserOf (ParseReplay rs p))" by (rule ParseReplay_steadily)
  then have mono: "lastFinalizedFrame p \<le>s lastFinalizedFrame (parserOf (ParseReplay rs p))"
    unfolding steadily_def by blast
  have "steadily (NewSlpParser opts) (parserOf (ParseReplay rs (NewSlpParser opts)))"
    by (rule ParseReplay_steadily)
  then have "ordered (parserOf (ParseReplay rs (NewSlpParser opts)))"
    unfolding steadily_def using NewSlpParser_ordered by blast
  then obtain ns where
    ns: "finalizedLog (emitted (parserOf (ParseReplay rs (NewSlpParser opts)))) = map Some ns"
      "sorted_wrt (<s) ns"
    unfolding ordered_def by blast
  from ns(2) have "distinct ns" by (rule strictly_sorted_distinct)
  with ns have ord: "\<exists>ns. finalizedLog (emitted (parserOf (ParseReplay rs (NewSlpParser opts)))) = map Some ns \<and>
         sorted_wrt (<s) ns \<and> distinct ns" by blast
  show ?thesis using mono ord finalizeFrames_gap by blast
qed

theorem finalization_in_order_witness:
  "lastFinalizedFrame (NewSlpParser \<lparr>Strict = True\<rparr>) <s - 100 \<and>
   SlpParser.Frames (NewSlpParser \<lparr>Strict = True\<rparr>)
     (lastFinalizedFrame (NewSlpParser \<lparr>Strict = True\<rparr>) + 1) = None \<and>
   finalizeFrames (- 100) (NewSlpParser \<lparr>Strict = True\<rparr>) = Return None (NewSlpParser \<lparr>Strict = True\<rparr>) \<and>
   finalizedLog (emitted (parserOf (ParseReplay rollbackReplay (NewSlpParser \<lparr>Strict = False\<rparr>)))) =
     [Some (- 123)]"
proof -
  have h: "lastFinalizedFrame (NewSlpParser \<lparr>Strict = True\<rparr>) <s - 100 \<and>
     SlpParser.Frames (NewSlpParser \<lparr>Strict = True\<rparr>)
       (lastFinalizedFrame (NewSlpParser \<lparr>Strict = True\<rparr>) + 1) = None"
    by (simp add: NewSlpParser_def)
  have l: "finalizedLog (emitted (parserOf (ParseReplay rollbackReplay (NewSlpParser \<lparr>Strict = False\<rparr>)))) =
     [Some (- 123)]"
    by (simp add: rollbackReplay_def run_defs finalizedLog_def)
  show ?thesis
    using h l finalization_in_order [of "NewSlpParser \<lparr>Strict = True\<rparr>" "[]" "\<lparr>Strict = True\<rparr>"
        "NewSlpParser \<lparr>Strict = True\<rparr>" "- 100"]
    by blast
qed



text \<open>
  C10: when the finalization that a \<open>GameEnd\<close> event starts returns a (strict-mode)
  error, \<open>handleGameEnd\<close> still stores the payload in \<open>GameEnd\<close> and emits \<open>Ended\<close> before
  it returns that error; the parser is not left as it was.
\<close>

theorem game_end_stored_despite_error:
  assumes "- 124 <s latestFrameIndex p" and "latestFrameIndex p \<noteq> lastFinalizedFrame p"
    and "finalizeFrames (latestFrameIndex p) p = Return (Some e) q"
  shows "handleGameEnd g p =
           Return (Some e) (Trigger Ended None (GameEndV g) (q\<lparr>SlpParser.GameEnd := Some g\<rparr>)) \<and>
         SlpParser.GameEnd (parserOf (handleGameEnd g p)) = Some g \<and>
         emitted (parserOf (handleGameEnd g p)) = emitted q @ [Emission Ended None (GameEndV g)] \<and>
         parserOf (handleGameEnd g p) \<noteq> p \<and>
         (\<exists>f s i. e = MissingFrameUpdate f (latestFrameIndex p) s i)"
proof -
  have eq: "handleGameEnd g p =
           Return (Some e) (Trigger Ended None (GameEndV g) (q\<lparr>SlpParser.GameEnd := Some g\<rparr>))"
    using assms by (simp add: handleGameEnd_def)
  have "steadily p (parserOf (finalizeFrames (latestFrameIndex p) p))"
    by (rule finalizeFrames_steadily)
  then obtain suf where suf: "emitted q = emitted p @ suf"
    unfolding steadily_def assms(3) by auto
  have em: "emitted (parserOf (handleGameEnd g p)) = emitted q @ [Emission Ended None (GameEndV g)]"
    unfolding eq by (simp add: Trigger_def)
  have "emitted (parserOf (handleGameEnd g p)) \<noteq> emitted p"
    unfolding em suf by simp
  then have ne: "parserOf (handleGameEnd g p) \<noteq> p" by auto
  have ge: "SlpParser.GameEnd (parserOf (handleGameEnd g p)) = Some g"
    unfolding eq by (simp add: Trigger_def)
  have sh: "\<exists>f s i. e = MissingFrameUpdate f (latestFrameIndex p) s i"
    using finalizeFrames_error [of "latestFrameIndex p" p e] assms(3) by simp
  show ?thesis using eq ge em ne sh by blast
qed

theorem game_end_stored_despite_error_witness:
  "- 124 <s latestFrameIndex (parserOf (ParseReplay missingPostReplay (NewSlpParser \<lparr>Strict = True\<rparr>))) \<and>
   errorOf (handleGameEnd \<lparr>GameEndMethod = 2, LRASInitiator = - 1\<rparr>
              (parserOf (ParseReplay missingPostReplay (NewSlpParser \<lparr>Strict = True\<rparr>)))) =
     Some (MissingFrameUpdate (- 123) (- 123) Post 0) \<and>
   SlpParser.GameEnd (parserOf (handleGameEnd \<lparr>GameEndMethod = 2, LRASInitiator = - 1\<rparr>
              (parserOf (ParseReplay missingPostReplay (NewSlpParser \<lparr>Strict = True\<rparr>))))) =
     Some \<lparr>GameEndMethod = 2, LRASInitiator = - 1\<rparr>"
proof -
  define P where "P = parserOf (ParseReplay missingPostReplay (NewSlpParser \<lparr>Strict = True\<rparr>))"
  have lat: "latestFrameIndex P = - 123" and las: "lastFinalizedFrame P = - 124"
    by (simp_all add: P_def missingPostReplay_def run_defs)
  have h1: "- 124 <s latestFrameIndex P" and h2: "latestFrameIndex P \<noteq> lastFinalizedFrame P"
    by (simp_all add: lat las)
  have h3: "finalizeFrames (latestFrameIndex P) P =
              Return (Some (MissingFrameUpdate (- 123) (- 123) Post 0)) P"
    unfolding lat by (subst finalizeFrames_unfold) (simp add: P_def missingPostReplay_def run_defs)
  show ?thesis
    using game_end_stored_despite_error [OF h1 h2 h3, of "\<lparr>GameEndMethod = 2, LRASInitiator = - 1\<rparr>"] h1
    unfolding P_def by (simp add: Trigger_def)
qed

text \<open>
  C4 (as stated): after the scenario-2 replay of version 3.0.0, the post-frame update of
  frame -123 with internal character 0x13 has patched \<open>gameInfo.Players[0].CharacterID\<close> to
  0x12.  It has not: the character the game start gave (here 0x13) is still there.
\<close>

theorem character_not_patched_counterexample:
  "characterIDs (parserOf (ParseReplay (scenario2 v3_0_0 0x13) (NewSlpParser \<lparr>Strict = False\<rparr>))) =
     Some [0x13]"
  by (simp add: scenario2_def characterIDs_def run_defs)

text \<open>
  C4 (amended): for the scenario-2 replay, a version of 1.6.0 or later (3.0.0 is one)
  completes the game info at the game start, the post-frame update then patches nothing,
  and \<open>gameInfo.Players[0].CharacterID\<close> is still what the game start gave; the patch to
  0x12 is made when the replay's version is below 1.6.0.
\<close>

theorem character_patched_below_1_6_0:
  "(GTE v v1_6_0 \<longrightarrow>
      characterIDs (parserOf (ParseReplay (scenario2 v c) (NewSlpParser opts))) = Some [c]) \<and>
   (\<not> GTE v v1_6_0 \<longrightarrow>
      characterIDs (parserOf (ParseReplay (scenario2 v c) (NewSlpParser opts))) = Some [0x12])"
proof (intro conjI impI)
  assume g: "GTE v v1_6_0"
  show "characterIDs (parserOf (ParseReplay (scenario2 v c) (NewSlpParser opts))) = Some [c]"
    by (cases "LTE v v2_2_0"; cases "Strict opts")
       (simp_all add: g scenario2_def characterIDs_def run_defs')
next
  assume g: "\<not> GTE v v1_6_0"
  then have l: "LTE v v2_2_0" by (rule below_1_6_0_LTE)
  show "characterIDs (parserOf (ParseReplay (scenario2 v c) (NewSlpParser opts))) = Some [0x12]"
    by (cases "Strict opts") (simp_all add: g l scenario2_def characterIDs_def run_defs')
qed

theorem character_patched_below_1_6_0_witness:
  "GTE v3_0_0 v1_6_0 \<and> \<not> GTE v1_5_0 v1_6_0 \<and>
   characterIDs (parserOf (ParseReplay (scenario2 v3_0_0 0x07) (NewSlpParser \<lparr>Strict = True\<rparr>))) =
     Some [0x07] \<and>
   characterIDs (parserOf (ParseReplay (scenario2 v1_5_0 0x13) (NewSlpParser \<lparr>Strict = False\<rparr>))) =
     Some [0x12]"
proof -
  have a: "GTE v3_0_0 v1_6_0" and b: "\<not> GTE v1_5_0 v1_6_0"
    by (simp_all add: GTE_def Compare_def)
  show ?thesis
    using a b character_patched_below_1_6_0 [of v3_0_0 "0x07" "\<lparr>Strict = True\<rparr>"]
      character_patched_below_1_6_0 [of v1_5_0 "0x13" "\<lparr>Strict = False\<rparr>"]
    by blast
qed




end
